theory Spec2Isabelle
  imports Complex_Main
begin

section \<open>JavaScript values used by the swap server\<close>

text \<open>
  Strings are modelled as \<^typ>\<open>string\<close>, restricted to ASCII: only the letters
  \<open>a\<close>..\<open>z\<close> and \<open>A\<close>..\<open>Z\<close> have a case, and only the six ASCII white-space
  characters are trimmed. A JavaScript \<open>number\<close> is \<open>NaN\<close>, an infinity, or a finite value;
  \<open>Val\<close> carries the mathematical value of the literal or computation, before rounding
  to binary64.
\<close>

datatype jsnum = NaN | NegInfinity | Val rat | PosInfinity

datatype jsval =
    Undefined
  | Null
  | JBool bool
  | JNumber jsnum
  | JString string
  | JArray "jsval list"
  | JObject "(string \<times> jsval) list"

definition lower_letters :: string where
  "lower_letters = ''abcdefghijklmnopqrstuvwxyz''"

definition upper_letters :: string where
  "upper_letters = ''ABCDEFGHIJKLMNOPQRSTUVWXYZ''"

definition toLowerCase :: "string \<Rightarrow> string" where
  "toLowerCase s =
     map (\<lambda>c. case map_of (zip upper_letters lower_letters) c of Some l \<Rightarrow> l | None \<Rightarrow> c) s"

definition toUpperCase :: "string \<Rightarrow> string" where
  "toUpperCase s =
     map (\<lambda>c. case map_of (zip lower_letters upper_letters) c of Some u \<Rightarrow> u | None \<Rightarrow> c) s"

definition isWhiteSpace :: "char \<Rightarrow> bool" where
  "isWhiteSpace c = (c \<in> set [CHR 0x09, CHR 0x0A, CHR 0x0B, CHR 0x0C, CHR 0x0D, CHR '' ''])"

definition trim :: "string \<Rightarrow> string" where
  "trim s = rev (dropWhile isWhiteSpace (rev (dropWhile isWhiteSpace s)))"

fun join :: "string \<Rightarrow> string list \<Rightarrow> string" where
  "join sep [] = []"
| "join sep [x] = x"
| "join sep (x # y # ys) = x @ sep @ join sep (y # ys)"

text \<open>Truthiness (\<open>ToBoolean\<close>), as used by \<open>!x\<close> and \<open>x || y\<close>.\<close>

fun truthy :: "jsval \<Rightarrow> bool" where
  "truthy Undefined = False"
| "truthy Null = False"
| "truthy (JBool b) = b"
| "truthy (JNumber n) = (n \<noteq> NaN \<and> n \<noteq> Val 0)"
| "truthy (JString s) = (s \<noteq> [])"
| "truthy (JArray xs) = True"
| "truthy (JObject kvs) = True"

text \<open>
  Property read \<open>v.k\<close> for a key \<open>k\<close> that no prototype defines (\<open>market\<close>,
  \<open>destAmount\<close>, \<open>message\<close>, \<open>error\<close>): the own property of an object, \<open>undefined\<close> on
  every other value that can be read from. Reading from \<open>null\<close> or \<open>undefined\<close> raises
  and is guarded at each use below.
\<close>

fun getProp :: "jsval \<Rightarrow> string \<Rightarrow> jsval" where
  "getProp (JObject kvs) k = (case map_of kvs k of Some v \<Rightarrow> v | None \<Rightarrow> Undefined)"
| "getProp v k = Undefined"

subsection \<open>Numeric literals: \<open>Number(s)\<close>, \<open>parseInt(s, 10)\<close>, \<open>BigInt(s)\<close>\<close>

definition digitVal :: "char \<Rightarrow> nat option" where
  "digitVal c =
     map_of [(CHR ''0'', 0), (CHR ''1'', 1), (CHR ''2'', 2), (CHR ''3'', 3), (CHR ''4'', 4),
             (CHR ''5'', 5), (CHR ''6'', 6), (CHR ''7'', 7), (CHR ''8'', 8), (CHR ''9'', 9),
             (CHR ''a'', 10), (CHR ''b'', 11), (CHR ''c'', 12), (CHR ''d'', 13),
             (CHR ''e'', 14), (CHR ''f'', 15), (CHR ''A'', 10), (CHR ''B'', 11),
             (CHR ''C'', 12), (CHR ''D'', 13), (CHR ''E'', 14), (CHR ''F'', 15)] c"

definition isDigitOf :: "nat \<Rightarrow> char \<Rightarrow> bool" where
  "isDigitOf radix c = (case digitVal c of Some d \<Rightarrow> d < radix | None \<Rightarrow> False)"

definition digitsValue :: "nat \<Rightarrow> string \<Rightarrow> nat" where
  "digitsValue radix ds = foldl (\<lambda>acc c. acc * radix + (case digitVal c of Some d \<Rightarrow> d | None \<Rightarrow> 0)) 0 ds"

text \<open>\<open>NonDecimalIntegerLiteral\<close>: \<open>0x\<close>, \<open>0o\<close> or \<open>0b\<close> (either case) and at least one digit.\<close>

definition nonDecimalLiteral :: "string \<Rightarrow> nat option" where
  "nonDecimalLiteral s =
     (case s of
        c0 # p # ds \<Rightarrow>
          (let radix = (if p \<in> set ''xX'' then 16 else if p \<in> set ''oO'' then 8
                        else if p \<in> set ''bB'' then 2 else 0)
           in if c0 = CHR ''0'' \<and> radix \<noteq> 0 \<and> ds \<noteq> [] \<and> list_all (isDigitOf radix) ds
              then Some (digitsValue radix ds) else None)
      | _ \<Rightarrow> None)"

text \<open>Splits an optional sign off: the flag says whether the sign was \<open>-\<close>.\<close>

definition splitSign :: "string \<Rightarrow> bool \<times> string" where
  "splitSign s =
     (case s of
        c # cs \<Rightarrow> if c = CHR ''-'' then (True, cs) else if c = CHR ''+'' then (False, cs)
                  else (False, s)
      | [] \<Rightarrow> (False, s))"

text \<open>\<open>ExponentPart\<close>, or nothing: the exponent when the whole rest is consumed.\<close>

definition exponentPart :: "string \<Rightarrow> int option" where
  "exponentPart s =
     (case s of
        [] \<Rightarrow> Some 0
      | c # cs \<Rightarrow>
          if c \<in> set ''eE'' then
            (let (neg, ds) = splitSign cs
             in if ds \<noteq> [] \<and> list_all (isDigitOf 10) ds
                then Some ((if neg then - 1 else 1) * int (digitsValue 10 ds)) else None)
          else None)"

definition pow10 :: "int \<Rightarrow> rat" where
  "pow10 e = (if 0 \<le> e then 10 ^ nat e else 1 / 10 ^ nat (- e))"

text \<open>\<open>StrUnsignedDecimalLiteral\<close> without \<open>Infinity\<close>: its mathematical value.\<close>

definition unsignedDecimal :: "string \<Rightarrow> rat option" where
  "unsignedDecimal s =
     (let ip = takeWhile (isDigitOf 10) s;
          r1 = dropWhile (isDigitOf 10) s;
          dot = (r1 \<noteq> [] \<and> hd r1 = CHR ''.'');
          fp = (if dot then takeWhile (isDigitOf 10) (tl r1) else []);
          r2 = (if dot then dropWhile (isDigitOf 10) (tl r1) else r1)
      in if ip = [] \<and> fp = [] then None
         else (case exponentPart r2 of
                 None \<Rightarrow> None
               | Some e \<Rightarrow>
                   Some ((of_nat (digitsValue 10 ip)
                          + of_nat (digitsValue 10 fp) / 10 ^ length fp) * pow10 e)))"

definition jsNumber :: "string \<Rightarrow> jsnum" where
  "jsNumber str =
     (let s = trim str in
      if s = [] then Val 0
      else (case nonDecimalLiteral s of
              Some n \<Rightarrow> Val (of_nat n)
            | None \<Rightarrow>
                (let (neg, u) = splitSign s in
                 if u = ''Infinity'' then (if neg then NegInfinity else PosInfinity)
                 else (case unsignedDecimal u of
                         None \<Rightarrow> NaN
                       | Some v \<Rightarrow> Val (if neg then - v else v)))))"

definition isNaN :: "jsnum \<Rightarrow> bool" where
  "isNaN n = (n = NaN)"

text \<open>
  \<open>n <= 0\<close> on the binary64 value: a positive literal rounds to zero exactly when its value
  is at most half the least subnormal, \<open>1 / 2 ^ 1075\<close> (ties go to the even neighbour, zero).
\<close>

fun leZero :: "jsnum \<Rightarrow> bool" where
  "leZero NaN = False"
| "leZero NegInfinity = True"
| "leZero PosInfinity = False"
| "leZero (Val v) = (v \<le> 1 / 2 ^ 1075)"

text \<open>\<open>parseInt(s, 10)\<close>: leading white space, an optional sign, the longest digit prefix.\<close>

definition parseInt10 :: "string \<Rightarrow> jsnum" where
  "parseInt10 str =
     (let (neg, u) = splitSign (dropWhile isWhiteSpace str);
          z = takeWhile (isDigitOf 10) u
      in if z = [] then NaN
         else Val (of_int ((if neg then - 1 else 1) * int (digitsValue 10 z))))"

text \<open>Errors are values: what a \<open>throw\<close> carries. An Axios error may hold a response.\<close>

datatype axios_response = AxiosResponse (response_data: jsval)

datatype js_error =
    Error string
  | TypeError
  | SyntaxError
  | AxiosError string "axios_response option"

text \<open>\<open>BigInt(s)\<close> on a string, and \<open>toString()\<close> of a bigint.\<close>

definition jsBigInt :: "string \<Rightarrow> js_error + int" where
  "jsBigInt str =
     (let s = trim str in
      if s = [] then Inr 0
      else (case nonDecimalLiteral s of
              Some n \<Rightarrow> Inr (int n)
            | None \<Rightarrow>
                (let (neg, ds) = splitSign s
                 in if ds \<noteq> [] \<and> list_all (isDigitOf 10) ds
                    then Inr ((if neg then - 1 else 1) * int (digitsValue 10 ds))
                    else Inl SyntaxError)))"

definition digitChar :: "nat \<Rightarrow> char" where
  "digitChar d = ''0123456789'' ! d"

function natToString :: "nat \<Rightarrow> string" where
  "natToString n =
     (if n < 10 then [digitChar n] else natToString (n div 10) @ [digitChar (n mod 10)])"
  by pat_completeness auto
termination
  by (relation "measure (\<lambda>n. n)") auto

declare natToString.simps [simp del]

definition bigintToString :: "int \<Rightarrow> string" where
  "bigintToString i = (if i < 0 then CHR ''-'' # natToString (nat (- i)) else natToString (nat i))"

section \<open>Static tables (types/index.ts, utils/helpers.ts)\<close>

record ChainInfo =
  chain_id :: jsnum
  chain_name :: string

definition SUPPORTED_CHAINS :: "(string \<times> ChainInfo) list" where
  "SUPPORTED_CHAINS =
     [(''ETHEREUM'', \<lparr>chain_id = Val 1, chain_name = ''Ethereum''\<rparr>),
      (''ARBITRUM'', \<lparr>chain_id = Val 42161, chain_name = ''Arbitrum One''\<rparr>),
      (''OPTIMISM'', \<lparr>chain_id = Val 10, chain_name = ''Optimism''\<rparr>),
      (''BASE'', \<lparr>chain_id = Val 8453, chain_name = ''Base''\<rparr>),
      (''POLYGON'', \<lparr>chain_id = Val 137, chain_name = ''Polygon''\<rparr>),
      (''AVALANCHE'', \<lparr>chain_id = Val 43114, chain_name = ''Avalanche''\<rparr>),
      (''SEPOLIA'', \<lparr>chain_id = Val 11155111, chain_name = ''Sepolia''\<rparr>),
      (''ARBITRUM_SEPOLIA'', \<lparr>chain_id = Val 421614, chain_name = ''Arbitrum Sepolia''\<rparr>),
      (''BASE_SEPOLIA'', \<lparr>chain_id = Val 84532, chain_name = ''Base Sepolia''\<rparr>),
      (''OPTIMISM_SEPOLIA'', \<lparr>chain_id = Val 11155420, chain_name = ''Optimism Sepolia''\<rparr>)]"

definition CHAIN_NAME_MAPPING :: "(string \<times> string) list" where
  "CHAIN_NAME_MAPPING =
     [(''ETHEREUM'', ''ethereum''),
      (''ARBITRUM'', ''arbitrum''),
      (''OPTIMISM'', ''optimism''),
      (''BASE'', ''base''),
      (''POLYGON'', ''polygon''),
      (''AVALANCHE'', ''avalanche''),
      (''SEPOLIA'', ''sepolia''),
      (''ARBITRUM_SEPOLIA'', ''arbitrum-sepolia''),
      (''BASE_SEPOLIA'', ''base-sepolia''),
      (''OPTIMISM_SEPOLIA'', ''optimism-sepolia'')]"

definition FALLBACK_TOKEN_ADDRESSES :: "(string \<times> (string \<times> string) list) list" where
  "FALLBACK_TOKEN_ADDRESSES =
     [(''ethereum'',
        [(''USDC'', ''0xA0b86a33E6441031aAd3f2bEDf49EC5Bc2f42E45''),
         (''DAI'', ''0x6B175474E89094C44Da98b954EedeAC495271d0F''),
         (''USDT'', ''0xdAC17F958D2ee523a2206206994597C13D831ec7''),
         (''ETH'', ''0xeeeeeeeeeeeeeeeeeeeeeeeeeeeeeeeeeeeeeeee''),
         (''SRC'', ''0xSRC_TOKEN_ADDRESS''),
         (''DEST'', ''0xDEST_TOKEN_ADDRESS'')]),
      (''arbitrum-sepolia'',
        [(''USDC'', ''0x75faf114eafb1BDbe2F0316DF893fd58CE46AA4d''),
         (''USDT'', ''0x8b6a2D4Db73bA8A9fFD9b7D38A0D4D6A3e0fcAAD'')]),
      (''optimism-sepolia'',
        [(''USDC'', ''0x5fd84259d66Cd46123540766Be93DFE6D43130D7''),
         (''USDT'', ''0x82a9d4A8Ce4B8C0bd8A2C60E8a8b6cD9e4D99e5F'')]),
      (''base-sepolia'',
        [(''USDC'', ''0x036CbD53842c5426634e7929541eC2318f3dCF7e'')]),
      (''sepolia'',
        [(''USDC'', ''0x1c7D4B196Cb0C7B01d743Fbc6116a902379C7238''),
         (''USDT'', ''0xaA8E23Fb1079EA71e0a56F48a2aA51851D8433D0'')])]"

definition FALLBACK_TOKEN_DECIMALS :: "(string \<times> (string \<times> jsnum) list) list" where
  "FALLBACK_TOKEN_DECIMALS =
     [(''ethereum'',
        [(''USDC'', Val 6), (''DAI'', Val 18), (''USDT'', Val 6), (''ETH'', Val 18),
         (''SRC'', Val 18), (''DEST'', Val 18)]),
      (''arbitrum-sepolia'', [(''USDC'', Val 6), (''USDT'', Val 6)]),
      (''optimism-sepolia'', [(''USDC'', Val 6), (''USDT'', Val 6)]),
      (''base-sepolia'', [(''USDC'', Val 6)]),
      (''sepolia'', [(''USDC'', Val 6), (''USDT'', Val 6)])]"

section \<open>External collaborators\<close>

text \<open>
  The token/chain directory (\<open>@chrom-ar/utils\<close>), the unit and ABI codecs (\<open>viem\<close>) and
  the swap SDK (\<open>@velora-dex/sdk\<close>) are libraries outside the repository: they are
  parameters of the model. Each may raise, so each returns a sum. A lookup is taken to
  answer the same way each time it is asked the same question during one request.
  \<open>APPROVE_ABI\<close>, the constant of \<open>utils/abis\<close> handed to the ABI codec, is a parameter too.
\<close>

datatype utils_chain_id = IdNumber jsnum | IdString string

record quote_params =
  q_srcToken :: string
  q_destToken :: string
  q_amount :: string
  q_userAddress :: string
  q_srcDecimals :: jsnum
  q_destDecimals :: jsnum
  q_side :: string
  q_mode :: string

record build_params =
  b_srcToken :: string
  b_destToken :: string
  b_srcAmount :: string
  b_slippage :: jsnum
  b_priceRoute :: jsval
  b_userAddress :: string

record tx_params =
  tp_to :: "string option"
  tp_data :: "string option"
  tp_value :: "string option"
  tp_gasPrice :: "string option"
  tp_gas :: "string option"

record simple_sdk =
  getQuote :: "quote_params \<Rightarrow> js_error + jsval"
  getSpender :: "js_error + string"
  buildTx :: "build_params \<Rightarrow> js_error + tx_params option"

record sdk_config =
  cfg_chainId :: jsnum
  cfg_apiURL :: string
  cfg_version :: string

record externals =
  getChainIdFromUtils :: "string \<Rightarrow> js_error + utils_chain_id"
  getTokenAddressFromUtils :: "string \<Rightarrow> string \<Rightarrow> js_error + string option"
  getTokenDecimalsFromUtils :: "string \<Rightarrow> string \<Rightarrow> js_error + jsnum option"
  parseUnits :: "string \<Rightarrow> jsnum \<Rightarrow> js_error + int"
  encodeFunctionData :: "jsval \<Rightarrow> string \<Rightarrow> string list \<Rightarrow> js_error + string"
  APPROVE_ABI :: jsval
  constructSimpleSDK :: "sdk_config \<Rightarrow> simple_sdk"
  DEFAULT_VERSION :: string
  numberTimes :: "jsnum \<Rightarrow> jsnum \<Rightarrow> jsnum"
  toStringOther :: "jsval \<Rightarrow> string"

section \<open>Chain/token registry (utils/helpers.ts)\<close>

text \<open>\<open>CHAIN_NAME_MAPPING[chainName.toUpperCase()] || chainName.toLowerCase()\<close>\<close>

definition normalizedChainName :: "string \<Rightarrow> string" where
  "normalizedChainName chainName =
     (case map_of CHAIN_NAME_MAPPING (toUpperCase chainName) of
        Some n \<Rightarrow> n
      | None \<Rightarrow> toLowerCase chainName)"

definition getChainIdForNetwork :: "externals \<Rightarrow> string \<Rightarrow> js_error + jsnum" where
  "getChainIdForNetwork ext chainName =
     (case getChainIdFromUtils ext (normalizedChainName chainName) of
        Inr (IdString s) \<Rightarrow> Inr (parseInt10 s)
      | Inr (IdNumber n) \<Rightarrow> Inr n
      | Inl _ \<Rightarrow>
          (case map_of SUPPORTED_CHAINS (toUpperCase chainName) of
             Some supportedChain \<Rightarrow> Inr (chain_id supportedChain)
           | None \<Rightarrow> Inl (Error (''Unsupported chain: '' @ chainName))))"

text \<open>\<open>!tokenAddress\<close> on \<open>string | null | undefined\<close>.\<close>

definition noAddress :: "string option \<Rightarrow> bool" where
  "noAddress a = (a = None \<or> a = Some [])"

definition getTokenAddressForChain :: "externals \<Rightarrow> string \<Rightarrow> string \<Rightarrow> js_error + string" where
  "getTokenAddressForChain ext chainName tokenSymbol =
     (let n = normalizedChainName chainName;
          fromUtils = (case getTokenAddressFromUtils ext n (toUpperCase tokenSymbol) of
                         Inr a \<Rightarrow> a
                       | Inl _ \<Rightarrow> None);
          tokenAddress =
            (case map_of FALLBACK_TOKEN_ADDRESSES n of
               Some table \<Rightarrow>
                 if noAddress fromUtils then map_of table (toUpperCase tokenSymbol)
                 else fromUtils
             | None \<Rightarrow> fromUtils)
      in case tokenAddress of
           Some a \<Rightarrow>
             if a = [] then
               Inl (Error (''Token '' @ tokenSymbol @ '' not found on chain '' @ chainName))
             else Inr a
         | None \<Rightarrow>
             Inl (Error (''Token '' @ tokenSymbol @ '' not found on chain '' @ chainName)))"

definition getTokenDecimalsForChain :: "externals \<Rightarrow> string \<Rightarrow> string \<Rightarrow> jsnum" where
  "getTokenDecimalsForChain ext chainName tokenSymbol =
     (let n = normalizedChainName chainName;
          fromUtils = (case getTokenDecimalsFromUtils ext n (toUpperCase tokenSymbol) of
                         Inr d \<Rightarrow> d
                       | Inl _ \<Rightarrow> None);
          decimals =
            (case map_of FALLBACK_TOKEN_DECIMALS n of
               Some table \<Rightarrow>
                 if fromUtils = None then map_of table (toUpperCase tokenSymbol)
                 else fromUtils
             | None \<Rightarrow> fromUtils)
      in case decimals of
           None \<Rightarrow>
             if toUpperCase tokenSymbol \<in> set [''USDC'', ''USDT''] then Val 6 else Val 18
         | Some d \<Rightarrow> d)"

definition getTokenAmount :: "externals \<Rightarrow> string \<Rightarrow> string \<Rightarrow> string \<Rightarrow> js_error + string" where
  "getTokenAmount ext amount chainName tokenSymbol =
     (let decimals = getTokenDecimalsForChain ext chainName tokenSymbol
      in case parseUnits ext amount decimals of
           Inr parsed \<Rightarrow> Inr (bigintToString parsed)
         | Inl _ \<Rightarrow> Inl (Error (''Failed to parse token amount: '' @ amount)))"

definition getTokenDecimals :: "externals \<Rightarrow> string \<Rightarrow> string \<Rightarrow> jsnum" where
  "getTokenDecimals ext chainName tokenSymbol = getTokenDecimalsForChain ext chainName tokenSymbol"

definition getChainId :: "externals \<Rightarrow> string \<Rightarrow> js_error + jsnum" where
  "getChainId ext chainName = getChainIdForNetwork ext chainName"

definition getTokenAddress :: "externals \<Rightarrow> string \<Rightarrow> string \<Rightarrow> js_error + string" where
  "getTokenAddress ext chainName tokenSymbol = getTokenAddressForChain ext chainName tokenSymbol"

text \<open>\<open>/^0x[a-fA-F0-9]{40}$/\<close>: without the multiline flag, \<open>$\<close> is the end of the input.\<close>

definition isValidAddress :: "string \<Rightarrow> bool" where
  "isValidAddress address =
     (take 2 address = ''0x'' \<and> length address = 42 \<and> list_all (isDigitOf 16) (drop 2 address))"

section \<open>Request validator (utils/helpers.ts)\<close>

datatype swap_mode = Market

record SwapRequest =
  amount :: string
  fromToken :: string
  toToken :: string
  fromAddress :: string
  fromChain :: string
  mode :: "swap_mode option"
  slippage :: "jsnum option"

record validation =
  isValid :: bool
  errors :: "string list"

definition amountError :: "SwapRequest \<Rightarrow> bool" where
  "amountError params =
     (amount params = [] \<or> isNaN (jsNumber (amount params)) \<or> leZero (jsNumber (amount params)))"

definition fromTokenError :: "SwapRequest \<Rightarrow> bool" where
  "fromTokenError params = (fromToken params = [] \<or> trim (fromToken params) = [])"

definition toTokenError :: "SwapRequest \<Rightarrow> bool" where
  "toTokenError params = (toToken params = [] \<or> trim (toToken params) = [])"

definition fromAddressError :: "SwapRequest \<Rightarrow> bool" where
  "fromAddressError params =
     (fromAddress params = [] \<or> \<not> isValidAddress (fromAddress params))"

definition chainError :: "SwapRequest \<Rightarrow> bool" where
  "chainError params =
     (fromChain params = [] \<or> map_of SUPPORTED_CHAINS (toUpperCase (fromChain params)) = None)"

text \<open>The two token-support checks run the lookup in a \<open>try\<close> and record its failure.\<close>

definition tokenSupportError :: "externals \<Rightarrow> SwapRequest \<Rightarrow> string \<Rightarrow> bool" where
  "tokenSupportError ext params token =
     (fromChain params \<noteq> [] \<and> token \<noteq> []
      \<and> map_of SUPPORTED_CHAINS (toUpperCase (fromChain params)) \<noteq> None
      \<and> isl (getTokenAddressForChain ext (fromChain params) token))"

definition pushIf :: "bool \<Rightarrow> string \<Rightarrow> string list \<Rightarrow> string list" where
  "pushIf failed msg errs = (if failed then errs @ [msg] else errs)"

definition validateSwapRequest :: "externals \<Rightarrow> SwapRequest \<Rightarrow> validation" where
  "validateSwapRequest ext params =
     (let errs = [];
          errs = pushIf (amountError params) ''Invalid amount: must be a positive number'' errs;
          errs = pushIf (fromTokenError params) ''From token is required'' errs;
          errs = pushIf (toTokenError params) ''To token is required'' errs;
          errs = pushIf (fromAddressError params) ''Invalid from address format'' errs;
          errs = pushIf (chainError params) (''Unsupported chain: '' @ fromChain params) errs;
          errs = pushIf (tokenSupportError ext params (fromToken params))
                   (''Token '' @ fromToken params @ '' not supported on '' @ fromChain params) errs;
          errs = pushIf (tokenSupportError ext params (toToken params))
                   (''Token '' @ toToken params @ '' not supported on '' @ fromChain params) errs
      in \<lparr>isValid = (length errs = 0), errors = errs\<rparr>)"

section \<open>Swap transaction builder (services/swapService.ts)\<close>

record Transaction =
  tx_chainId :: jsnum
  tx_to :: string
  tx_value :: string
  tx_data :: "string option"
  tx_gasPrice :: "string option"
  tx_gasLimit :: "string option"

record SwapResponse =
  transactions :: "Transaction list"
  quote :: jsval

record SwapService =
  simpleSDK :: simple_sdk

text \<open>The constructor builds the SDK session once, with a fixed chain id.\<close>

definition sdkConfig :: "externals \<Rightarrow> sdk_config" where
  "sdkConfig ext =
     \<lparr>cfg_chainId = Val 1, cfg_apiURL = ''https://api.velora.xyz'',
      cfg_version = DEFAULT_VERSION ext\<rparr>"

definition SwapService_constructor :: "externals \<Rightarrow> SwapService" where
  "SwapService_constructor ext = \<lparr>simpleSDK = constructSimpleSDK ext (sdkConfig ext)\<rparr>"

text \<open>
  The calls made to the SDK session are recorded, in order, next to the outcome, so that
  what was sent to the collaborator can be stated.
\<close>

datatype call = GetQuote quote_params | GetSpender | BuildTx build_params

definition modeString :: "swap_mode \<Rightarrow> string" where
  "modeString m = (case m of Market \<Rightarrow> ''market'')"

text \<open>
  \<open>'market' in quote ? quote.market : quote\<close>. The \<open>in\<close> operator raises a \<open>TypeError\<close>
  on a value that is not an object.
\<close>

fun marketOf :: "jsval \<Rightarrow> js_error + jsval" where
  "marketOf (JObject kvs) =
     Inr (case map_of kvs ''market'' of Some v \<Rightarrow> v | None \<Rightarrow> JObject kvs)"
| "marketOf (JArray xs) = Inr (JArray xs)"
| "marketOf v = Inl TypeError"

text \<open>\<open>x ? BigInt(x).toString() : undefined\<close>\<close>

definition optBigIntString :: "string option \<Rightarrow> js_error + string option" where
  "optBigIntString x =
     (case x of
        None \<Rightarrow> Inr None
      | Some s \<Rightarrow>
          if s = [] then Inr None
          else (case jsBigInt s of
                  Inl e \<Rightarrow> Inl e
                | Inr i \<Rightarrow> Inr (Some (bigintToString i))))"

definition NATIVE_E :: string where
  "NATIVE_E = ''0xeeeeeeeeeeeeeeeeeeeeeeeeeeeeeeeeeeeeeeee''"

definition NATIVE_ZERO :: string where
  "NATIVE_ZERO = ''0x0000000000000000000000000000000000000000''"

text \<open>
  A step of an \<open>async\<close> body: the SDK calls made so far and either the error thrown or the
  value. \<open>andThen\<close> runs the rest of the body unless the step threw; \<open>local\<close> is a step that
  calls no collaborator, \<open>called\<close> one \<open>await\<close> of an SDK call, \<open>throwIf\<close> a guarded \<open>throw\<close>.
\<close>

type_synonym 'a step = "call list \<times> (js_error + 'a)"

definition andThen :: "'a step \<Rightarrow> ('a \<Rightarrow> 'b step) \<Rightarrow> 'b step" where
  "andThen m f =
     (case m of
        (cs, Inl e) \<Rightarrow> (cs, Inl e)
      | (cs, Inr x) \<Rightarrow> (case f x of (cs', r) \<Rightarrow> (cs @ cs', r)))"

definition local :: "js_error + 'a \<Rightarrow> 'a step" where
  "local r = ([], r)"

definition called :: "call \<Rightarrow> js_error + 'a \<Rightarrow> 'a step" where
  "called c r = ([c], r)"

definition throwIf :: "bool \<Rightarrow> js_error \<Rightarrow> unit step" where
  "throwIf c e = local (if c then Inl e else Inr ())"

text \<open>The body of the \<open>try\<close> block of \<open>buildSwapTransaction\<close>.\<close>

definition buildSwapTransaction_try ::
  "externals \<Rightarrow> SwapService \<Rightarrow> SwapRequest \<Rightarrow> SwapResponse step" where
  "buildSwapTransaction_try ext this request =
     (let validation = validateSwapRequest ext request in
      andThen (throwIf (\<not> isValid validation)
                 (Error (''Invalid request: '' @ join '', '' (errors validation)))) (\<lambda>_.
      let slippage' = (case slippage request of Some s \<Rightarrow> s | None \<Rightarrow> Val (1 / 2));
          mode' = (case mode request of Some m \<Rightarrow> modeString m | None \<Rightarrow> ''market'')
      in
      andThen (local (getChainId ext (fromChain request))) (\<lambda>fromChainId.
      andThen (local (getTokenAddress ext (fromChain request) (fromToken request)))
        (\<lambda>fromTokenAddress.
      andThen (local (getTokenAddress ext (fromChain request) (toToken request)))
        (\<lambda>toTokenAddress.
      andThen (local (getTokenAmount ext (amount request) (fromChain request)
                        (fromToken request)))
        (\<lambda>fromTokenAmount.
      let fromTokenDecimals = getTokenDecimals ext (fromChain request) (fromToken request);
          toTokenDecimals = getTokenDecimals ext (fromChain request) (toToken request);
          qp = \<lparr>q_srcToken = fromTokenAddress, q_destToken = toTokenAddress,
                q_amount = fromTokenAmount, q_userAddress = fromAddress request,
                q_srcDecimals = fromTokenDecimals, q_destDecimals = toTokenDecimals,
                q_side = ''SELL'', q_mode = mode'\<rparr>
      in
      andThen (called (GetQuote qp) (getQuote (simpleSDK this) qp)) (\<lambda>quote.
      andThen (throwIf (\<not> truthy quote) (Error ''Failed to get quote from VeloraDEX''))
        (\<lambda>_.
      andThen (local (marketOf quote)) (\<lambda>priceRoute.
      andThen (throwIf (\<not> truthy priceRoute \<or> \<not> truthy (getProp priceRoute ''destAmount''))
                 (Error ''Invalid market quote received from VeloraDEX'')) (\<lambda>_.
      andThen (called GetSpender (getSpender (simpleSDK this))) (\<lambda>spender.
      andThen (local
                 (if toLowerCase fromTokenAddress \<noteq> NATIVE_E
                     \<and> toLowerCase fromTokenAddress \<noteq> NATIVE_ZERO
                  then (case encodeFunctionData ext (APPROVE_ABI ext) ''approve''
                               [spender, fromTokenAmount] of
                          Inl e \<Rightarrow> Inl e
                        | Inr encoded \<Rightarrow>
                            Inr [\<lparr>tx_chainId = fromChainId, tx_to = fromTokenAddress,
                                  tx_value = ''0'', tx_data = Some encoded,
                                  tx_gasPrice = None, tx_gasLimit = None\<rparr>])
                  else Inr []))
        (\<lambda>approvals.
      let bp = \<lparr>b_srcToken = fromTokenAddress, b_destToken = toTokenAddress,
                b_srcAmount = fromTokenAmount,
                b_slippage = numberTimes ext slippage' (Val 100),
                b_priceRoute = priceRoute, b_userAddress = fromAddress request\<rparr>
      in
      andThen (called (BuildTx bp) (buildTx (simpleSDK this) bp)) (\<lambda>built.
      andThen (local
                 (case built of
                    None \<Rightarrow> Inl (Error ''Failed to build swap transaction from VeloraDEX'')
                  | Some tp \<Rightarrow>
                      if noAddress (tp_to tp) \<or> noAddress (tp_data tp)
                      then Inl (Error ''Failed to build swap transaction from VeloraDEX'')
                      else Inr tp))
        (\<lambda>txParams.
      andThen (local (optBigIntString (tp_gasPrice txParams))) (\<lambda>gasPrice.
      andThen (local (optBigIntString (tp_gas txParams))) (\<lambda>gasLimit.
      local
        (Inr \<lparr>transactions =
                approvals @
                [\<lparr>tx_chainId = fromChainId, tx_to = the (tp_to txParams),
                  tx_value = (if noAddress (tp_value txParams) then ''0''
                              else the (tp_value txParams)),
                  tx_data = tp_data txParams,
                  tx_gasPrice = gasPrice, tx_gasLimit = gasLimit\<rparr>],
              quote = priceRoute\<rparr>)))))))))))))))))"

text \<open>
  The \<open>catch\<close> block, the same in both operations:
  \<open>error.response.data?.message || error.response.data?.error || 'VeloraDEX API request failed'\<close>
  becomes the message of a new \<open>Error\<close>; any other error is thrown again.
\<close>

definition optProp :: "jsval \<Rightarrow> string \<Rightarrow> jsval" where
  "optProp v k = (if v = Null \<or> v = Undefined then Undefined else getProp v k)"

definition jsToString :: "externals \<Rightarrow> jsval \<Rightarrow> string" where
  "jsToString ext v = (case v of JString s \<Rightarrow> s | _ \<Rightarrow> toStringOther ext v)"

definition apiErrorMessage :: "jsval \<Rightarrow> jsval" where
  "apiErrorMessage payload =
     (if truthy (optProp payload ''message'') then optProp payload ''message''
      else if truthy (optProp payload ''error'') then optProp payload ''error''
      else JString ''VeloraDEX API request failed'')"

definition catchBlock :: "externals \<Rightarrow> js_error \<Rightarrow> js_error" where
  "catchBlock ext err =
     (case err of
        AxiosError msg (Some response) \<Rightarrow>
          Error (jsToString ext (apiErrorMessage (response_data response)))
      | _ \<Rightarrow> err)"

definition buildSwapTransaction ::
  "externals \<Rightarrow> SwapService \<Rightarrow> SwapRequest \<Rightarrow> SwapResponse step" where
  "buildSwapTransaction ext this request =
     (case buildSwapTransaction_try ext this request of
        (calls, Inl err) \<Rightarrow> (calls, Inl (catchBlock ext err))
      | (calls, Inr response) \<Rightarrow> (calls, Inr response))"



section \<open>Notions of the specification\<close>

text \<open>
  Two addresses are equal case-insensitively when they agree after case folding; the
  native-asset sentinels are the two addresses the specification names.
\<close>

definition equalsIgnoreCase :: "string \<Rightarrow> string \<Rightarrow> bool" where
  "equalsIgnoreCase a b = (toLowerCase a = toLowerCase b)"

definition nativeSentinel :: "string \<Rightarrow> bool" where
  "nativeSentinel a =
     (equalsIgnoreCase a ''0xeeeeeeeeeeeeeeeeeeeeeeeeeeeeeeeeeeeeeeee''
      \<or> equalsIgnoreCase a ''0x0000000000000000000000000000000000000000'')"

section \<open>A test double of the collaborators\<close>

text \<open>
  Concrete collaborators in the manner of the unit tests: the SDK session answers every
  quote request with the given outcome; the directory knows Ethereum and a few tokens.
\<close>

definition sampleFromAddress :: string where
  "sampleFromAddress = ''0xd8dA6BF26964aF9D7eEd9e03E53415D37aA96045''"

definition sampleRouter :: string where
  "sampleRouter = ''0x1F98431c8aD98523631AE4a59f267346ea31F984''"

definition sampleTxRequest :: tx_params where
  "sampleTxRequest =
     \<lparr>tp_to = Some sampleRouter, tp_data = Some ''0x1234567890abcdef'',
      tp_value = Some ''0'', tp_gasPrice = Some ''10000000000'', tp_gas = None\<rparr>"

definition mockSDK :: "js_error + jsval \<Rightarrow> sdk_config \<Rightarrow> simple_sdk" where
  "mockSDK quoteResult cfg =
     \<lparr>getQuote = (\<lambda>qp. quoteResult),
      getSpender = Inr sampleRouter,
      buildTx = (\<lambda>bp. Inr (Some sampleTxRequest))\<rparr>"

definition mockExternals :: "js_error + jsval \<Rightarrow> externals" where
  "mockExternals quoteResult =
     \<lparr>getChainIdFromUtils =
        (\<lambda>n. if n = ''ethereum'' then Inr (IdNumber (Val 1))
             else Inl (Error ''Unknown chain'')),
      getTokenAddressFromUtils =
        (\<lambda>n sym. if n = ''ethereum'' \<and> sym = ''ETH''
                     then Inr (Some ''0xEeeeeEeeeEeEeeEeEeEeeEEEeeeeEeeeeeeeEEeE'')
                   else if n = ''base'' \<and> sym = ''USDC''
                     then Inr (Some ''0x833589fCD6eDb6E08f4c7C32D4f71b54bdA02913'')
                   else if n = ''base'' \<and> sym = ''DAI''
                     then Inr (Some ''0x50c5725949A6F0c72E6C4a641F24049A917DB0Cb'')
                   else Inr None),
      getTokenDecimalsFromUtils = (\<lambda>n sym. Inr None),
      parseUnits =
        (\<lambda>a d. if a = ''1'' \<and> d = Val 6 then Inr 1000000
                 else if a = ''0.1'' \<and> d = Val 18 then Inr 100000000000000000
                 else Inl (Error ''InvalidDecimalNumberError'')),
      encodeFunctionData = (\<lambda>abi fn args. Inr (''0x095ea7b3'' @ concat args)),
      APPROVE_ABI = JArray [],
      constructSimpleSDK = mockSDK quoteResult,
      DEFAULT_VERSION = ''6.2'',
      numberTimes = (\<lambda>a b. case (a, b) of (Val x, Val y) \<Rightarrow> Val (x * y) | _ \<Rightarrow> NaN),
      toStringOther = (\<lambda>v. ''[object Object]'')\<rparr>"

definition mockService :: "js_error + jsval \<Rightarrow> SwapService" where
  "mockService quoteResult = SwapService_constructor (mockExternals quoteResult)"

definition samplePriceRoute :: jsval where
  "samplePriceRoute =
     JObject [(''srcAmount'', JString ''1000000''),
              (''destAmount'', JString ''2000000000000000000'')]"

definition tokenRequest :: SwapRequest where
  "tokenRequest =
     \<lparr>amount = ''1'', fromToken = ''USDC'', toToken = ''DAI'',
      fromAddress = sampleFromAddress, fromChain = ''BASE'', mode = None,
      slippage = Some (Val (1 / 100))\<rparr>"

definition nativeRequest :: SwapRequest where
  "nativeRequest =
     \<lparr>amount = ''0.1'', fromToken = ''ETH'', toToken = ''DAI'',
      fromAddress = sampleFromAddress, fromChain = ''ETHEREUM'', mode = None,
      slippage = None\<rparr>"

text \<open>What the two sample requests are expected to produce.\<close>

definition tokenQuoteParams :: quote_params where
  "tokenQuoteParams =
     \<lparr>q_srcToken = ''0x833589fCD6eDb6E08f4c7C32D4f71b54bdA02913'',
      q_destToken = ''0x50c5725949A6F0c72E6C4a641F24049A917DB0Cb'',
      q_amount = ''1000000'', q_userAddress = sampleFromAddress,
      q_srcDecimals = Val 6, q_destDecimals = Val 18,
      q_side = ''SELL'', q_mode = ''market''\<rparr>"

definition tokenBuildParams :: build_params where
  "tokenBuildParams =
     \<lparr>b_srcToken = ''0x833589fCD6eDb6E08f4c7C32D4f71b54bdA02913'',
      b_destToken = ''0x50c5725949A6F0c72E6C4a641F24049A917DB0Cb'',
      b_srcAmount = ''1000000'', b_slippage = Val 1,
      b_priceRoute = samplePriceRoute, b_userAddress = sampleFromAddress\<rparr>"

definition tokenResponse :: SwapResponse where
  "tokenResponse =
     \<lparr>transactions =
        [\<lparr>tx_chainId = Val 8453, tx_to = ''0x833589fCD6eDb6E08f4c7C32D4f71b54bdA02913'',
          tx_value = ''0'',
          tx_data = Some (''0x095ea7b3'' @ sampleRouter @ ''1000000''),
          tx_gasPrice = None, tx_gasLimit = None\<rparr>,
         \<lparr>tx_chainId = Val 8453, tx_to = sampleRouter,
          tx_value = ''0'', tx_data = Some ''0x1234567890abcdef'',
          tx_gasPrice = Some ''10000000000'', tx_gasLimit = None\<rparr>],
      quote = samplePriceRoute\<rparr>"

definition nativeQuoteParams :: quote_params where
  "nativeQuoteParams =
     \<lparr>q_srcToken = ''0xEeeeeEeeeEeEeeEeEeEeeEEEeeeeEeeeeeeeEEeE'',
      q_destToken = ''0x6B175474E89094C44Da98b954EedeAC495271d0F'',
      q_amount = ''100000000000000000'', q_userAddress = sampleFromAddress,
      q_srcDecimals = Val 18, q_destDecimals = Val 18,
      q_side = ''SELL'', q_mode = ''market''\<rparr>"

definition nativeBuildParams :: build_params where
  "nativeBuildParams =
     \<lparr>b_srcToken = ''0xEeeeeEeeeEeEeeEeEeEeeEEEeeeeEeeeeeeeEEeE'',
      b_destToken = ''0x6B175474E89094C44Da98b954EedeAC495271d0F'',
      b_srcAmount = ''100000000000000000'', b_slippage = Val 50,
      b_priceRoute = samplePriceRoute, b_userAddress = sampleFromAddress\<rparr>"

definition nativeResponse :: SwapResponse where
  "nativeResponse =
     \<lparr>transactions =
        [\<lparr>tx_chainId = Val 1, tx_to = sampleRouter,
          tx_value = ''0'', tx_data = Some ''0x1234567890abcdef'',
          tx_gasPrice = Some ''10000000000'', tx_gasLimit = None\<rparr>],
      quote = samplePriceRoute\<rparr>"

text \<open>A quote in the SDK's market shape, an empty quote, and two transport failures.\<close>

definition marketQuote :: jsval where
  "marketQuote = JObject [(''market'', samplePriceRoute)]"




definition badRequest :: SwapRequest where
  "badRequest =
     \<lparr>amount = ''0'', fromToken = [], toToken = ''DAI'',
      fromAddress = sampleFromAddress, fromChain = ''UNSUPPORTED_CHAIN'', mode = None,
      slippage = None\<rparr>"

section \<open>Properties of the steps\<close>

lemma andThen_Inr:
  "andThen m f = (tr, Inr y) \<longleftrightarrow>
     (\<exists>cs x cs'. m = (cs, Inr x) \<and> f x = (cs', Inr y) \<and> tr = cs @ cs')"
  by (auto simp: andThen_def split: prod.splits sum.splits)

lemma local_Inr: "local r = (tr, Inr y) \<longleftrightarrow> tr = [] \<and> r = Inr y"
  by (auto simp: local_def)

lemma called_Inr: "called c r = (tr, Inr y) \<longleftrightarrow> tr = [c] \<and> r = Inr y"
  by (auto simp: called_def)

lemma throwIf_Inr: "throwIf c e = (tr, Inr u) \<longleftrightarrow> tr = [] \<and> \<not> c"
  by (auto simp: throwIf_def local_def)

lemma andThen_simps:
  "andThen (cs, Inl e) f = (cs, Inl e)"
  "andThen (cs, Inr x) f = (cs @ fst (f x), snd (f x))"
  by (simp_all add: andThen_def split: prod.splits)

text \<open>What a run of the \<open>try\<close> block that returns has gone through.\<close>

lemma build_try_success:
  assumes "buildSwapTransaction_try ext this request = (calls, Inr response)"
  obtains fromChainId fromTokenAddress toTokenAddress fromTokenAmount q priceRoute spender
            approvals built txParams gasPrice gasLimit qp bp
  where "isValid (validateSwapRequest ext request)"
    and "getChainId ext (fromChain request) = Inr fromChainId"
    and "getTokenAddress ext (fromChain request) (fromToken request) = Inr fromTokenAddress"
    and "getTokenAddress ext (fromChain request) (toToken request) = Inr toTokenAddress"
    and "getTokenAmount ext (amount request) (fromChain request) (fromToken request)
           = Inr fromTokenAmount"
    and "qp = \<lparr>q_srcToken = fromTokenAddress, q_destToken = toTokenAddress,
               q_amount = fromTokenAmount, q_userAddress = fromAddress request,
               q_srcDecimals = getTokenDecimals ext (fromChain request) (fromToken request),
               q_destDecimals = getTokenDecimals ext (fromChain request) (toToken request),
               q_side = ''SELL'',
               q_mode = (case mode request of None \<Rightarrow> ''market''
                         | Some m \<Rightarrow> modeString m)\<rparr>"
    and "getQuote (simpleSDK this) qp = Inr q"
    and "truthy q" and "marketOf q = Inr priceRoute"
    and "truthy priceRoute" and "truthy (getProp priceRoute ''destAmount'')"
    and "getSpender (simpleSDK this) = Inr spender"
    and "(if toLowerCase fromTokenAddress \<noteq> NATIVE_E
             \<and> toLowerCase fromTokenAddress \<noteq> NATIVE_ZERO
          then case encodeFunctionData ext (APPROVE_ABI ext) ''approve''
                      [spender, fromTokenAmount] of
                 Inl e \<Rightarrow> Inl e
               | Inr encoded \<Rightarrow>
                   Inr [\<lparr>tx_chainId = fromChainId, tx_to = fromTokenAddress,
                         tx_value = ''0'', tx_data = Some encoded,
                         tx_gasPrice = None, tx_gasLimit = None\<rparr>]
          else Inr []) = Inr approvals"
    and "bp = \<lparr>b_srcToken = fromTokenAddress, b_destToken = toTokenAddress,
               b_srcAmount = fromTokenAmount,
               b_slippage = numberTimes ext
                  (case slippage request of None \<Rightarrow> Val (1 / 2) | Some s \<Rightarrow> s) (Val 100),
               b_priceRoute = priceRoute, b_userAddress = fromAddress request\<rparr>"
    and "buildTx (simpleSDK this) bp = Inr built"
    and "(case built of
            None \<Rightarrow> Inl (Error ''Failed to build swap transaction from VeloraDEX'')
          | Some tp \<Rightarrow>
              if noAddress (tp_to tp) \<or> noAddress (tp_data tp)
              then Inl (Error ''Failed to build swap transaction from VeloraDEX'')
              else Inr tp) = Inr txParams"
    and "optBigIntString (tp_gasPrice txParams) = Inr gasPrice"
    and "optBigIntString (tp_gas txParams) = Inr gasLimit"
    and "calls = [GetQuote qp, GetSpender, BuildTx bp]"
    and "response =
          \<lparr>transactions =
             approvals @
             [\<lparr>tx_chainId = fromChainId, tx_to = the (tp_to txParams),
               tx_value = (if noAddress (tp_value txParams) then ''0''
                           else the (tp_value txParams)),
               tx_data = tp_data txParams,
               tx_gasPrice = gasPrice, tx_gasLimit = gasLimit\<rparr>],
           quote = priceRoute\<rparr>"
  using assms unfolding buildSwapTransaction_try_def Let_def
  apply (simp add: andThen_Inr local_Inr called_Inr throwIf_Inr)
  apply (elim exE conjE)
  apply (rule that)
  apply (assumption | rule refl)+
  apply simp_all
  done

lemma build_success_try:
  "buildSwapTransaction ext this request = (calls, Inr response) \<Longrightarrow>
   buildSwapTransaction_try ext this request = (calls, Inr response)"
  by (auto simp: buildSwapTransaction_def split: prod.splits sum.splits)

text \<open>A condensed form: the shape of the result and of the calls.\<close>

lemma build_success_shape:
  assumes "buildSwapTransaction ext this request = (calls, Inr response)"
  shows "\<exists>fromChainId fromTokenAddress fromTokenAmount q priceRoute spender approvals
            txParams qp bp swapTransaction.
      getChainId ext (fromChain request) = Inr fromChainId
    \<and> getTokenAddress ext (fromChain request) (fromToken request) = Inr fromTokenAddress
    \<and> getTokenAmount ext (amount request) (fromChain request) (fromToken request)
         = Inr fromTokenAmount
    \<and> getQuote (simpleSDK this) qp = Inr q \<and> marketOf q = Inr priceRoute
    \<and> getSpender (simpleSDK this) = Inr spender
    \<and> buildTx (simpleSDK this) bp = Inr (Some txParams)
    \<and> calls = [GetQuote qp, GetSpender, BuildTx bp]
    \<and> q_amount qp = fromTokenAmount \<and> b_srcAmount bp = fromTokenAmount
    \<and> b_priceRoute bp = priceRoute
    \<and> tx_chainId swapTransaction = fromChainId
    \<and> tp_to txParams = Some (tx_to swapTransaction)
    \<and> tp_data txParams = tx_data swapTransaction
    \<and> response = \<lparr>transactions = approvals @ [swapTransaction], quote = priceRoute\<rparr>
    \<and> (if toLowerCase fromTokenAddress \<noteq> NATIVE_E
           \<and> toLowerCase fromTokenAddress \<noteq> NATIVE_ZERO
        then \<exists>encoded.
               encodeFunctionData ext (APPROVE_ABI ext) ''approve''
                 [spender, fromTokenAmount] = Inr encoded
             \<and> approvals = [\<lparr>tx_chainId = fromChainId, tx_to = fromTokenAddress,
                              tx_value = ''0'', tx_data = Some encoded,
                              tx_gasPrice = None, tx_gasLimit = None\<rparr>]
        else approvals = [])"
proof -
  from assms have tried: "buildSwapTransaction_try ext this request = (calls, Inr response)"
    by (rule build_success_try)
  show ?thesis
    by (rule build_try_success [OF tried])
       (force simp: noAddress_def split: if_splits sum.splits option.splits)
qed

lemma toLowerCase_sentinels:
  "toLowerCase ''0xeeeeeeeeeeeeeeeeeeeeeeeeeeeeeeeeeeeeeeee'' = NATIVE_E"
  "toLowerCase ''0x0000000000000000000000000000000000000000'' = NATIVE_ZERO"
  by (simp_all add: toLowerCase_def upper_letters_def lower_letters_def NATIVE_E_def
        NATIVE_ZERO_def)

lemma nativeSentinel_iff:
  "nativeSentinel a \<longleftrightarrow> toLowerCase a = NATIVE_E \<or> toLowerCase a = NATIVE_ZERO"
  unfolding nativeSentinel_def equalsIgnoreCase_def toLowerCase_sentinels ..

section \<open>Properties of the validator's checks\<close>

lemma set_pushIf: "set (pushIf b m es) = (if b then insert m (set es) else set es)"
  by (simp add: pushIf_def)

lemma length_pushIf: "length (pushIf b m es) = length es + (if b then 1 else 0)"
  by (simp add: pushIf_def)

lemma pushIf_Nil: "pushIf b m es = [] \<longleftrightarrow> \<not> b \<and> es = []"
  by (simp add: pushIf_def)

lemma isValid_iff:
  "isValid (validateSwapRequest ext params) \<longleftrightarrow>
     \<not> amountError params \<and> \<not> fromTokenError params \<and> \<not> toTokenError params
     \<and> \<not> fromAddressError params \<and> \<not> chainError params
     \<and> \<not> tokenSupportError ext params (fromToken params)
     \<and> \<not> tokenSupportError ext params (toToken params)"
  by (auto simp: validateSwapRequest_def Let_def pushIf_Nil)


section \<open>The test double, evaluated\<close>

lemmas string_defs = toUpperCase_def toLowerCase_def lower_letters_def upper_letters_def
  trim_def isWhiteSpace_def

lemmas number_defs = jsNumber_def isNaN_def nonDecimalLiteral_def splitSign_def
  unsignedDecimal_def isDigitOf_def digitVal_def exponentPart_def digitsValue_def pow10_def

lemmas registry_defs = normalizedChainName_def CHAIN_NAME_MAPPING_def SUPPORTED_CHAINS_def
  FALLBACK_TOKEN_ADDRESSES_def FALLBACK_TOKEN_DECIMALS_def getChainId_def
  getChainIdForNetwork_def getTokenAddress_def getTokenAddressForChain_def noAddress_def
  getTokenDecimals_def getTokenDecimalsForChain_def

lemma natToString_small: "n < 10 \<Longrightarrow> natToString n = [digitChar n]"
  by (subst natToString.simps) simp

lemma natToString_big:
  "10 \<le> n \<Longrightarrow> natToString n = natToString (n div 10) @ [digitChar (n mod 10)]"
  by (subst natToString.simps) simp

lemmas bigint_defs = bigintToString_def natToString_small natToString_big digitChar_def

lemma mock_fields:
  "constructSimpleSDK (mockExternals qr) = mockSDK qr"
  "APPROVE_ABI (mockExternals qr) = JArray []"
  "DEFAULT_VERSION (mockExternals qr) = ''6.2''"
  "encodeFunctionData (mockExternals qr) abi fn args = Inr (''0x095ea7b3'' @ concat args)"
  "numberTimes (mockExternals qr) (Val x) (Val y) = Val (x * y)"
  "toStringOther (mockExternals qr) v = ''[object Object]''"
  "parseUnits (mockExternals qr) ''1'' (Val 6) = Inr 1000000"
  "parseUnits (mockExternals qr) ''0.1'' (Val 18) = Inr 100000000000000000"
  by (simp_all add: mockExternals_def)

lemma mock_sdk:
  "getQuote (simpleSDK (mockService qr)) qp = qr"
  "getSpender (simpleSDK (mockService qr)) = Inr sampleRouter"
  "buildTx (simpleSDK (mockService qr)) bp = Inr (Some sampleTxRequest)"
  by (simp_all add: mockService_def SwapService_constructor_def mock_fields mockSDK_def)

lemma mock_gas:
  "optBigIntString (tp_gasPrice sampleTxRequest) = Inr (Some ''10000000000'')"
  "optBigIntString (tp_gas sampleTxRequest) = Inr None"
  by (simp_all add: sampleTxRequest_def optBigIntString_def jsBigInt_def string_defs
        number_defs bigint_defs)

lemma mock_tx:
  "tp_to sampleTxRequest = Some sampleRouter"
  "tp_data sampleTxRequest = Some ''0x1234567890abcdef''"
  "tp_value sampleTxRequest = Some ''0''"
  by (simp_all add: sampleTxRequest_def)

lemma sampleRouter_nonempty: "sampleRouter \<noteq> []"
  by (simp add: sampleRouter_def)

lemma valid_sampleFromAddress: "\<not> fromAddressError (r\<lparr>fromAddress := sampleFromAddress\<rparr>)"
  by (simp add: fromAddressError_def isValidAddress_def sampleFromAddress_def isDigitOf_def
        digitVal_def)

subsection \<open>A token swap on Base\<close>

lemma token_resolved:
  "getChainId (mockExternals qr) ''BASE'' = Inr (Val 8453)"
  "getTokenAddress (mockExternals qr) ''BASE'' ''USDC''
     = Inr ''0x833589fCD6eDb6E08f4c7C32D4f71b54bdA02913''"
  "getTokenAddress (mockExternals qr) ''BASE'' ''DAI''
     = Inr ''0x50c5725949A6F0c72E6C4a641F24049A917DB0Cb''"
  "getTokenDecimals (mockExternals qr) ''BASE'' ''USDC'' = Val 6"
  "getTokenDecimals (mockExternals qr) ''BASE'' ''DAI'' = Val 18"
  by (simp_all add: registry_defs string_defs mockExternals_def)

lemma token_amount:
  "getTokenAmount (mockExternals qr) ''1'' ''BASE'' ''USDC'' = Inr ''1000000''"
proof -
  have d: "getTokenDecimalsForChain (mockExternals qr) ''BASE'' ''USDC'' = Val 6"
    using token_resolved(4) [of qr] by (simp add: getTokenDecimals_def)
  show ?thesis
    by (simp add: getTokenAmount_def d mock_fields bigint_defs)
qed

lemma token_valid: "isValid (validateSwapRequest (mockExternals qr) tokenRequest)"
proof -
  have "\<not> amountError tokenRequest"
    by (simp add: amountError_def tokenRequest_def string_defs number_defs)
  moreover have "\<not> fromTokenError tokenRequest" "\<not> toTokenError tokenRequest"
    by (simp_all add: fromTokenError_def toTokenError_def tokenRequest_def string_defs)
  moreover have "\<not> fromAddressError tokenRequest"
    using valid_sampleFromAddress [of tokenRequest] by (simp add: tokenRequest_def)
  moreover have "\<not> chainError tokenRequest"
    by (simp add: chainError_def tokenRequest_def string_defs SUPPORTED_CHAINS_def)
  moreover have "\<not> tokenSupportError (mockExternals qr) tokenRequest (fromToken tokenRequest)"
    "\<not> tokenSupportError (mockExternals qr) tokenRequest (toToken tokenRequest)"
    using token_resolved(2,3) [of qr]
    by (simp_all add: tokenSupportError_def tokenRequest_def getTokenAddress_def)
  ultimately show ?thesis by (simp add: isValid_iff)
qed

lemma token_not_native:
  "toLowerCase ''0x833589fCD6eDb6E08f4c7C32D4f71b54bdA02913'' \<noteq> NATIVE_E"
  "toLowerCase ''0x833589fCD6eDb6E08f4c7C32D4f71b54bdA02913'' \<noteq> NATIVE_ZERO"
  by (simp_all add: string_defs NATIVE_E_def NATIVE_ZERO_def)

lemma token_build_any:
  assumes "marketOf q = Inr samplePriceRoute" and "truthy q"
  shows "buildSwapTransaction (mockExternals (Inr q)) (mockService (Inr q)) tokenRequest =
           ([GetQuote tokenQuoteParams, GetSpender, BuildTx tokenBuildParams],
            Inr tokenResponse)"
proof -
  have r: "amount tokenRequest = ''1''" "fromToken tokenRequest = ''USDC''"
    "toToken tokenRequest = ''DAI''" "fromChain tokenRequest = ''BASE''"
    "fromAddress tokenRequest = sampleFromAddress" "mode tokenRequest = None"
    "slippage tokenRequest = Some (Val (1 / 100))"
    by (simp_all add: tokenRequest_def)
  have p: "truthy samplePriceRoute" "truthy (getProp samplePriceRoute ''destAmount'')"
    by (simp_all add: samplePriceRoute_def)
  show ?thesis
    by (simp add: buildSwapTransaction_def buildSwapTransaction_try_def Let_def r
          token_valid token_resolved token_amount mock_sdk assms p
          andThen_simps local_def called_def throwIf_def mock_fields mock_gas
          mock_tx token_not_native noAddress_def sampleRouter_nonempty tokenQuoteParams_def
          tokenBuildParams_def tokenResponse_def)
qed

lemma token_build:
  "buildSwapTransaction (mockExternals (Inr samplePriceRoute))
       (mockService (Inr samplePriceRoute)) tokenRequest =
     ([GetQuote tokenQuoteParams, GetSpender, BuildTx tokenBuildParams], Inr tokenResponse)"
  by (rule token_build_any) (simp_all add: samplePriceRoute_def)

lemma market_build:
  "buildSwapTransaction (mockExternals (Inr marketQuote))
       (mockService (Inr marketQuote)) tokenRequest =
     ([GetQuote tokenQuoteParams, GetSpender, BuildTx tokenBuildParams], Inr tokenResponse)"
  by (rule token_build_any) (simp_all add: marketQuote_def)


subsection \<open>A native swap on Ethereum\<close>

lemma native_resolved:
  "getChainId (mockExternals qr) ''ETHEREUM'' = Inr (Val 1)"
  "getTokenAddress (mockExternals qr) ''ETHEREUM'' ''ETH''
     = Inr ''0xEeeeeEeeeEeEeeEeEeEeeEEEeeeeEeeeeeeeEEeE''"
  "getTokenAddress (mockExternals qr) ''ETHEREUM'' ''DAI''
     = Inr ''0x6B175474E89094C44Da98b954EedeAC495271d0F''"
  "getTokenDecimals (mockExternals qr) ''ETHEREUM'' ''ETH'' = Val 18"
  "getTokenDecimals (mockExternals qr) ''ETHEREUM'' ''DAI'' = Val 18"
  by (simp_all add: registry_defs string_defs mockExternals_def)

lemma native_amount:
  "getTokenAmount (mockExternals qr) ''0.1'' ''ETHEREUM'' ''ETH''
     = Inr ''100000000000000000''"
proof -
  have d: "getTokenDecimalsForChain (mockExternals qr) ''ETHEREUM'' ''ETH'' = Val 18"
    using native_resolved(4) [of qr] by (simp add: getTokenDecimals_def)
  show ?thesis
    by (simp add: getTokenAmount_def d mock_fields bigint_defs)
qed

lemma native_valid: "isValid (validateSwapRequest (mockExternals qr) nativeRequest)"
proof -
  have "\<not> amountError nativeRequest"
    by (simp add: amountError_def nativeRequest_def string_defs number_defs)
  moreover have "\<not> fromTokenError nativeRequest" "\<not> toTokenError nativeRequest"
    by (simp_all add: fromTokenError_def toTokenError_def nativeRequest_def string_defs)
  moreover have "\<not> fromAddressError nativeRequest"
    using valid_sampleFromAddress [of nativeRequest] by (simp add: nativeRequest_def)
  moreover have "\<not> chainError nativeRequest"
    by (simp add: chainError_def nativeRequest_def string_defs SUPPORTED_CHAINS_def)
  moreover have "\<not> tokenSupportError (mockExternals qr) nativeRequest (fromToken nativeRequest)"
    "\<not> tokenSupportError (mockExternals qr) nativeRequest (toToken nativeRequest)"
    using native_resolved(2,3) [of qr]
    by (simp_all add: tokenSupportError_def nativeRequest_def getTokenAddress_def)
  ultimately show ?thesis by (simp add: isValid_iff)
qed

lemma native_is_native:
  "toLowerCase ''0xEeeeeEeeeEeEeeEeEeEeeEEEeeeeEeeeeeeeEEeE'' = NATIVE_E"
  by (simp add: string_defs NATIVE_E_def)

lemma native_build:
  "buildSwapTransaction (mockExternals (Inr samplePriceRoute))
       (mockService (Inr samplePriceRoute)) nativeRequest =
     ([GetQuote nativeQuoteParams, GetSpender, BuildTx nativeBuildParams],
      Inr nativeResponse)"
proof -
  have r: "amount nativeRequest = ''0.1''" "fromToken nativeRequest = ''ETH''"
    "toToken nativeRequest = ''DAI''" "fromChain nativeRequest = ''ETHEREUM''"
    "fromAddress nativeRequest = sampleFromAddress" "mode nativeRequest = None"
    "slippage nativeRequest = None"
    by (simp_all add: nativeRequest_def)
  have p: "truthy samplePriceRoute" "truthy (getProp samplePriceRoute ''destAmount'')"
    "marketOf samplePriceRoute = Inr samplePriceRoute"
    by (simp_all add: samplePriceRoute_def)
  show ?thesis
    by (simp add: buildSwapTransaction_def buildSwapTransaction_try_def Let_def r
          native_valid native_resolved native_amount mock_sdk p
          andThen_simps local_def called_def throwIf_def mock_fields mock_gas
          mock_tx native_is_native noAddress_def sampleRouter_nonempty
          nativeQuoteParams_def nativeBuildParams_def nativeResponse_def)
qed

lemma token_request_resolved:
  "getChainId (mockExternals qr) (fromChain tokenRequest) = Inr (Val 8453)"
  "getTokenAddress (mockExternals qr) (fromChain tokenRequest) (fromToken tokenRequest)
     = Inr ''0x833589fCD6eDb6E08f4c7C32D4f71b54bdA02913''"
  "getTokenAmount (mockExternals qr) (amount tokenRequest) (fromChain tokenRequest)
       (fromToken tokenRequest) = Inr ''1000000''"
  by (simp_all add: tokenRequest_def token_resolved token_amount)

lemma native_request_resolved:
  "getTokenAddress (mockExternals qr) (fromChain nativeRequest) (fromToken nativeRequest)
     = Inr ''0xEeeeeEeeeEeEeeEeEeEeeEEEeeeeEeeeeeeeEEeE''"
  by (simp add: nativeRequest_def native_resolved)



section \<open>Request validator: accumulation\<close>

text \<open>
  Claim C3. The validator is a total function with no raising branch: for every input it
  returns a record \<open>{isValid, errors}\<close>, valid exactly when the list is empty. Every one of
  the seven checks contributes its message independently of the others: the list holds one
  message per failing check, and each fixed message is present exactly when its check
  fails. A request with amount \<open>"0"\<close>, an empty \<open>fromToken\<close> and a chain that is not
  supported yields at least three distinct messages.
\<close>

theorem validateSwapRequest_accumulates:
  "(isValid (validateSwapRequest ext params) \<longleftrightarrow> errors (validateSwapRequest ext params) = [])
   \<and> length (errors (validateSwapRequest ext params)) =
       length (filter (\<lambda>failed. failed)
         [amountError params, fromTokenError params, toTokenError params,
          fromAddressError params, chainError params,
          tokenSupportError ext params (fromToken params),
          tokenSupportError ext params (toToken params)])
   \<and> (''Invalid amount: must be a positive number'' \<in> set (errors (validateSwapRequest ext params))
        \<longleftrightarrow> amountError params)
   \<and> (''From token is required'' \<in> set (errors (validateSwapRequest ext params))
        \<longleftrightarrow> fromTokenError params)
   \<and> (''To token is required'' \<in> set (errors (validateSwapRequest ext params))
        \<longleftrightarrow> toTokenError params)
   \<and> (''Invalid from address format'' \<in> set (errors (validateSwapRequest ext params))
        \<longleftrightarrow> fromAddressError params)
   \<and> (''Unsupported chain: '' @ fromChain params \<in> set (errors (validateSwapRequest ext params))
        \<longleftrightarrow> chainError params)
   \<and> (amount params = ''0'' \<and> fromToken params = []
        \<and> map_of SUPPORTED_CHAINS (toUpperCase (fromChain params)) = None
        \<longrightarrow> 3 \<le> card (set (errors (validateSwapRequest ext params))))"
proof -
  let ?r = "validateSwapRequest ext params"
  have valid: "isValid ?r \<longleftrightarrow> errors ?r = []"
    by (simp add: validateSwapRequest_def Let_def)
  have len: "length (errors ?r) =
       length (filter (\<lambda>failed. failed)
         [amountError params, fromTokenError params, toTokenError params,
          fromAddressError params, chainError params,
          tokenSupportError ext params (fromToken params),
          tokenSupportError ext params (toToken params)])"
    by (simp add: validateSwapRequest_def Let_def length_pushIf)
  have m1: "''Invalid amount: must be a positive number'' \<in> set (errors ?r)
              \<longleftrightarrow> amountError params"
    by (simp add: validateSwapRequest_def Let_def set_pushIf)
  have m2: "''From token is required'' \<in> set (errors ?r) \<longleftrightarrow> fromTokenError params"
    by (simp add: validateSwapRequest_def Let_def set_pushIf)
  have m3: "''To token is required'' \<in> set (errors ?r) \<longleftrightarrow> toTokenError params"
    by (simp add: validateSwapRequest_def Let_def set_pushIf)
  have m4: "''Invalid from address format'' \<in> set (errors ?r) \<longleftrightarrow> fromAddressError params"
    by (simp add: validateSwapRequest_def Let_def set_pushIf)
  have m5: "''Unsupported chain: '' @ fromChain params \<in> set (errors ?r)
              \<longleftrightarrow> chainError params"
    by (simp add: validateSwapRequest_def Let_def set_pushIf)
  have three: "3 \<le> card (set (errors ?r))"
    if a: "amount params = ''0''" and f: "fromToken params = []"
      and c: "map_of SUPPORTED_CHAINS (toUpperCase (fromChain params)) = None"
  proof -
    have "leZero (jsNumber ''0'')"
      by (simp add: jsNumber_def trim_def isWhiteSpace_def nonDecimalLiteral_def
            splitSign_def unsignedDecimal_def isDigitOf_def digitVal_def exponentPart_def
            digitsValue_def pow10_def)
    with a have "amountError params" by (simp add: amountError_def)
    moreover from f have "fromTokenError params" by (simp add: fromTokenError_def)
    moreover from c have "chainError params" by (simp add: chainError_def)
    ultimately have sub:
      "{''Invalid amount: must be a positive number'', ''From token is required'',
        ''Unsupported chain: '' @ fromChain params} \<subseteq> set (errors ?r)"
      using m1 m2 m5 by simp
    have "card {''Invalid amount: must be a positive number'', ''From token is required'',
        ''Unsupported chain: '' @ fromChain params} = 3"
      by simp
    moreover have "card {''Invalid amount: must be a positive number'',
        ''From token is required'', ''Unsupported chain: '' @ fromChain params}
        \<le> card (set (errors ?r))"
      using sub by (intro card_mono) simp_all
    ultimately show ?thesis by simp
  qed
  from valid len m1 m2 m3 m4 m5 three show ?thesis by blast
qed

text \<open>On the sample request with amount \<open>"0"\<close>, no source token and the chain
  \<open>UNSUPPORTED_CHAIN\<close>, the validator reports at least three distinct messages.\<close>

theorem validateSwapRequest_accumulates_witness:
  "amount badRequest = ''0'' \<and> fromToken badRequest = []
   \<and> map_of SUPPORTED_CHAINS (toUpperCase (fromChain badRequest)) = None
   \<and> \<not> isValid (validateSwapRequest (mockExternals (Inr samplePriceRoute)) badRequest)
   \<and> 3 \<le> card (set (errors (validateSwapRequest (mockExternals (Inr samplePriceRoute))
                              badRequest)))"
proof -
  have h: "amount badRequest = ''0''" "fromToken badRequest = []"
    by (simp_all add: badRequest_def)
  have c: "map_of SUPPORTED_CHAINS (toUpperCase (fromChain badRequest)) = None"
    by (simp add: badRequest_def string_defs SUPPORTED_CHAINS_def)
  from validateSwapRequest_accumulates [of "mockExternals (Inr samplePriceRoute)" badRequest]
    h c
  have "3 \<le> card (set (errors (validateSwapRequest (mockExternals (Inr samplePriceRoute))
                              badRequest)))"
    and "isValid (validateSwapRequest (mockExternals (Inr samplePriceRoute)) badRequest)
           \<longleftrightarrow> errors (validateSwapRequest (mockExternals (Inr samplePriceRoute))
                          badRequest) = []"
    by blast+
  then show ?thesis using h c by auto
qed

section \<open>Registry\<close>

text \<open>
  Claim C4. \<open>getTokenDecimalsForChain\<close> has no raising branch (a failure of the directory
  is caught). When the directory gives no decimals for the normalised chain and the
  upper-cased symbol (it raises or returns nothing) and the fallback table has no entry
  either, the result is 6 when the upper-cased symbol is \<open>USDC\<close> or \<open>USDT\<close> and 18 for
  every other symbol.
\<close>

theorem getTokenDecimalsForChain_default:
  assumes "\<forall>d. getTokenDecimalsFromUtils ext (normalizedChainName chainName)
                 (toUpperCase tokenSymbol) \<noteq> Inr (Some d)"
    and "\<forall>table. map_of FALLBACK_TOKEN_DECIMALS (normalizedChainName chainName) = Some table
           \<longrightarrow> map_of table (toUpperCase tokenSymbol) = None"
  shows "getTokenDecimalsForChain ext chainName tokenSymbol =
           (if toUpperCase tokenSymbol = ''USDC'' \<or> toUpperCase tokenSymbol = ''USDT''
            then Val 6 else Val 18)"
proof -
  let ?u = "getTokenDecimalsFromUtils ext (normalizedChainName chainName)
              (toUpperCase tokenSymbol)"
  from assms(1) have none: "(case ?u of Inr d \<Rightarrow> d | Inl _ \<Rightarrow> None) = None"
    by (cases ?u) auto
  show ?thesis
    unfolding getTokenDecimalsForChain_def Let_def none
    using assms(2) by (auto split: option.splits)
qed

text \<open>With the test directory, \<open>dai\<close> on Sepolia defaults to 18 and \<open>usdt\<close> on Polygon to 6.\<close>

theorem getTokenDecimalsForChain_default_witness:
  "getTokenDecimalsForChain (mockExternals (Inr samplePriceRoute)) ''SEPOLIA'' ''dai'' = Val 18
   \<and> getTokenDecimalsForChain (mockExternals (Inr samplePriceRoute)) ''polygon'' ''usdt''
       = Val 6"
proof -
  let ?ext = "mockExternals (Inr samplePriceRoute)"
  have u: "\<forall>d. getTokenDecimalsFromUtils ?ext n s \<noteq> Inr (Some d)" for n s
    by (simp add: mockExternals_def)
  have t1: "\<forall>table. map_of FALLBACK_TOKEN_DECIMALS (normalizedChainName ''SEPOLIA'') = Some table
              \<longrightarrow> map_of table (toUpperCase ''dai'') = None"
    by (simp add: registry_defs string_defs)
  have t2: "\<forall>table. map_of FALLBACK_TOKEN_DECIMALS (normalizedChainName ''polygon'') = Some table
              \<longrightarrow> map_of table (toUpperCase ''usdt'') = None"
    by (simp add: registry_defs string_defs)
  have s: "toUpperCase ''dai'' = ''DAI''" "toUpperCase ''usdt'' = ''USDT''"
    by (simp_all add: string_defs)
  from getTokenDecimalsForChain_default [OF u t1] getTokenDecimalsForChain_default [OF u t2]
  show ?thesis by (simp add: s)
qed

section \<open>Swap transaction builder\<close>

text \<open>
  Claim C1. On every request for which \<open>buildSwapTransaction\<close> returns: when the resolved
  source token address is not a native-asset sentinel the list holds exactly two
  transactions, the first being the approval (sent to the source token, carrying the
  encoded \<open>approve\<close> call) and the second the swap (destination and calldata as returned
  by the build call); when the address is a sentinel the list holds the swap alone. So
  the approval, when there is one, comes before the swap.
\<close>

theorem buildSwapTransaction_transaction_list:
  assumes "buildSwapTransaction ext this request = (calls, Inr response)"
    and "getTokenAddress ext (fromChain request) (fromToken request) = Inr fromTokenAddress"
  shows "\<exists>swapTransaction bp txParams.
           last calls = BuildTx bp
         \<and> buildTx (simpleSDK this) bp = Inr (Some txParams)
         \<and> tp_to txParams = Some (tx_to swapTransaction)
         \<and> tp_data txParams = tx_data swapTransaction
         \<and> (\<not> nativeSentinel fromTokenAddress \<longrightarrow>
              (\<exists>approveTransaction spender fromTokenAmount encoded.
                 transactions response = [approveTransaction, swapTransaction]
               \<and> getSpender (simpleSDK this) = Inr spender
               \<and> getTokenAmount ext (amount request) (fromChain request) (fromToken request)
                    = Inr fromTokenAmount
               \<and> encodeFunctionData ext (APPROVE_ABI ext) ''approve''
                    [spender, fromTokenAmount] = Inr encoded
               \<and> tx_to approveTransaction = fromTokenAddress
               \<and> tx_data approveTransaction = Some encoded))
         \<and> (nativeSentinel fromTokenAddress \<longrightarrow> transactions response = [swapTransaction])"
  using build_success_shape [OF assms(1)] assms(2)
  by (auto simp: nativeSentinel_iff split: if_splits)

text \<open>The token swap on Base yields approval then swap; the native swap yields the swap alone.\<close>

theorem buildSwapTransaction_transaction_list_witness:
  "\<not> nativeSentinel ''0x833589fCD6eDb6E08f4c7C32D4f71b54bdA02913''
   \<and> (\<exists>approveTransaction swapTransaction.
         transactions tokenResponse = [approveTransaction, swapTransaction]
       \<and> tx_to approveTransaction = ''0x833589fCD6eDb6E08f4c7C32D4f71b54bdA02913''
       \<and> tx_data approveTransaction = Some (''0x095ea7b3'' @ sampleRouter @ ''1000000'')
       \<and> tx_to swapTransaction = sampleRouter)
   \<and> nativeSentinel ''0xEeeeeEeeeEeEeeEeEeEeeEEEeeeeEeeeeeeeEEeE''
   \<and> (\<exists>swapTransaction.
         transactions nativeResponse = [swapTransaction]
       \<and> tx_to swapTransaction = sampleRouter)"
  using buildSwapTransaction_transaction_list [OF token_build token_request_resolved(2)]
    buildSwapTransaction_transaction_list [OF native_build native_request_resolved]
  by (simp add: nativeSentinel_iff token_not_native native_is_native tokenResponse_def
        nativeResponse_def)

text \<open>
  Claim C2. On every request for which \<open>buildSwapTransaction\<close> returns, the approval is
  left out (the list holds one transaction) exactly when the resolved source token address
  equals, ignoring case, the all-\<open>e\<close> address or the all-zero address; for every other
  address the list holds two transactions.
\<close>

theorem native_detection_exact:
  assumes "buildSwapTransaction ext this request = (calls, Inr response)"
    and "getTokenAddress ext (fromChain request) (fromToken request) = Inr fromTokenAddress"
  shows "(length (transactions response) = 1 \<longleftrightarrow>
            equalsIgnoreCase fromTokenAddress ''0xeeeeeeeeeeeeeeeeeeeeeeeeeeeeeeeeeeeeeeee''
          \<or> equalsIgnoreCase fromTokenAddress ''0x0000000000000000000000000000000000000000'')
       \<and> (length (transactions response) = 2 \<longleftrightarrow>
            \<not> equalsIgnoreCase fromTokenAddress ''0xeeeeeeeeeeeeeeeeeeeeeeeeeeeeeeeeeeeeeeee''
          \<and> \<not> equalsIgnoreCase fromTokenAddress ''0x0000000000000000000000000000000000000000'')"
  using build_success_shape [OF assms(1)] assms(2)
  by (auto simp: equalsIgnoreCase_def toLowerCase_sentinels split: if_splits)

text \<open>The checksummed spelling of the all-\<open>e\<close> address is recognised; the USDC address is not.\<close>

theorem native_detection_exact_witness:
  "length (transactions nativeResponse) = 1
   \<and> equalsIgnoreCase ''0xEeeeeEeeeEeEeeEeEeEeeEEEeeeeEeeeeeeeEEeE''
        ''0xeeeeeeeeeeeeeeeeeeeeeeeeeeeeeeeeeeeeeeee''
   \<and> length (transactions tokenResponse) = 2
   \<and> \<not> equalsIgnoreCase ''0x833589fCD6eDb6E08f4c7C32D4f71b54bdA02913''
        ''0xeeeeeeeeeeeeeeeeeeeeeeeeeeeeeeeeeeeeeeee''
   \<and> \<not> equalsIgnoreCase ''0x833589fCD6eDb6E08f4c7C32D4f71b54bdA02913''
        ''0x0000000000000000000000000000000000000000''"
  using native_detection_exact [OF native_build native_request_resolved]
    native_detection_exact [OF token_build token_request_resolved(2)]
  by (simp add: tokenResponse_def nativeResponse_def equalsIgnoreCase_def string_defs)

text \<open>Claim C6 as stated fails: when the pricing collaborator returns an object with a
  \<open>market\<close> member, the response and the build call receive that member, not the object.\<close>

theorem quote_passed_unmodified_counterexample:
  "getQuote (simpleSDK (mockService (Inr marketQuote))) tokenQuoteParams = Inr marketQuote
   \<and> buildSwapTransaction (mockExternals (Inr marketQuote)) (mockService (Inr marketQuote))
        tokenRequest
      = ([GetQuote tokenQuoteParams, GetSpender, BuildTx tokenBuildParams], Inr tokenResponse)
   \<and> quote tokenResponse \<noteq> marketQuote
   \<and> b_priceRoute tokenBuildParams \<noteq> marketQuote"
  by (simp add: market_build mock_sdk)
     (simp add: tokenResponse_def tokenBuildParams_def marketQuote_def samplePriceRoute_def)

text \<open>
  Claim C6, as amended. On every request for which \<open>buildSwapTransaction\<close> returns, the
  price route is passed unmodified both to the response's \<open>quote\<close> field and to the build
  call; the price route is the \<open>market\<close> member of the object the pricing collaborator
  returned when that object has one, and the returned object itself otherwise.
\<close>

theorem priceRoute_passed_through:
  assumes "buildSwapTransaction ext this request = (calls, Inr response)"
  shows "\<exists>qp q bp.
           calls = [GetQuote qp, GetSpender, BuildTx bp]
         \<and> getQuote (simpleSDK this) qp = Inr q
         \<and> b_priceRoute bp = quote response
         \<and> (\<forall>kvs v. q = JObject kvs \<and> map_of kvs ''market'' = Some v \<longrightarrow> quote response = v)
         \<and> ((\<forall>kvs. q = JObject kvs \<longrightarrow> map_of kvs ''market'' = None) \<longrightarrow> quote response = q)"
proof -
  from build_success_shape [OF assms]
  obtain q priceRoute qp bp approvals swapTransaction
    where q: "getQuote (simpleSDK this) qp = Inr q" and m: "marketOf q = Inr priceRoute"
      and c: "calls = [GetQuote qp, GetSpender, BuildTx bp]"
      and b: "b_priceRoute bp = priceRoute"
      and r: "response = \<lparr>transactions = approvals @ [swapTransaction], quote = priceRoute\<rparr>"
    by blast
  from m have "\<forall>kvs v. q = JObject kvs \<and> map_of kvs ''market'' = Some v \<longrightarrow> priceRoute = v"
    by auto
  moreover from m
  have "(\<forall>kvs. q = JObject kvs \<longrightarrow> map_of kvs ''market'' = None) \<longrightarrow> priceRoute = q"
    by (cases q) auto
  ultimately show ?thesis using q c b r by auto
qed

text \<open>For the quote in market shape, both places receive its \<open>market\<close> member.\<close>

theorem priceRoute_passed_through_witness:
  "getQuote (simpleSDK (mockService (Inr marketQuote))) tokenQuoteParams
     = Inr (JObject [(''market'', samplePriceRoute)])
   \<and> quote tokenResponse = samplePriceRoute
   \<and> b_priceRoute tokenBuildParams = samplePriceRoute"
  using priceRoute_passed_through [OF market_build]
  by (simp add: mock_sdk marketQuote_def tokenResponse_def tokenBuildParams_def)




text \<open>
  Claim C8. On every request for which \<open>buildSwapTransaction\<close> returns with a source token
  address that is not a native-asset sentinel, the approval transaction is sent to the resolved source token
  address with value \<open>"0"\<close>, and its calldata is the encoding of
  \<open>approve(spender, amount)\<close>, where the spender is what \<open>getSpender\<close> returned and the
  amount is the base-unit amount that was sent in the quote call and in the build call.
\<close>

theorem approval_transaction_fields:
  assumes "buildSwapTransaction ext this request = (calls, Inr response)"
    and "getTokenAddress ext (fromChain request) (fromToken request) = Inr fromTokenAddress"
    and "\<not> nativeSentinel fromTokenAddress"
  shows "\<exists>spender fromTokenAmount encoded qp bp.
           getSpender (simpleSDK this) = Inr spender
         \<and> getTokenAmount ext (amount request) (fromChain request) (fromToken request)
              = Inr fromTokenAmount
         \<and> calls = [GetQuote qp, GetSpender, BuildTx bp]
         \<and> q_amount qp = fromTokenAmount \<and> b_srcAmount bp = fromTokenAmount
         \<and> encodeFunctionData ext (APPROVE_ABI ext) ''approve'' [spender, fromTokenAmount]
              = Inr encoded
         \<and> tx_to (hd (transactions response)) = fromTokenAddress
         \<and> tx_value (hd (transactions response)) = ''0''
         \<and> tx_data (hd (transactions response)) = Some encoded"
  using build_success_shape [OF assms(1)] assms(2,3)
  by (auto simp: nativeSentinel_iff split: if_splits)

text \<open>The approval of the token swap on Base.\<close>

theorem approval_transaction_fields_witness:
  "getSpender (simpleSDK (mockService (Inr samplePriceRoute))) = Inr sampleRouter
   \<and> q_amount tokenQuoteParams = ''1000000'' \<and> b_srcAmount tokenBuildParams = ''1000000''
   \<and> encodeFunctionData (mockExternals (Inr samplePriceRoute))
        (APPROVE_ABI (mockExternals (Inr samplePriceRoute))) ''approve''
        [sampleRouter, ''1000000''] = Inr (''0x095ea7b3'' @ sampleRouter @ ''1000000'')
   \<and> tx_to (hd (transactions tokenResponse)) = ''0x833589fCD6eDb6E08f4c7C32D4f71b54bdA02913''
   \<and> tx_value (hd (transactions tokenResponse)) = ''0''
   \<and> tx_data (hd (transactions tokenResponse))
       = Some (''0x095ea7b3'' @ sampleRouter @ ''1000000'')"
proof -
  have n: "\<not> nativeSentinel ''0x833589fCD6eDb6E08f4c7C32D4f71b54bdA02913''"
    by (simp add: nativeSentinel_iff token_not_native)
  from approval_transaction_fields [OF token_build token_request_resolved(2) n]
  show ?thesis
    by (simp add: mock_sdk mock_fields tokenQuoteParams_def tokenBuildParams_def
          tokenResponse_def)
qed




text \<open>
  Claim C10. On every request for which \<open>buildSwapTransaction\<close> of a constructed service
  returns, every transaction of the list carries the chain id resolved from the request's
  \<open>fromChain\<close>, while the SDK session of the service was constructed with the chain id 1.
\<close>

theorem transactions_chainId:
  assumes "buildSwapTransaction ext (SwapService_constructor ext) request
             = (calls, Inr response)"
  shows "\<exists>fromChainId.
           getChainId ext (fromChain request) = Inr fromChainId
         \<and> (\<forall>tx \<in> set (transactions response). tx_chainId tx = fromChainId)
         \<and> simpleSDK (SwapService_constructor ext) = constructSimpleSDK ext (sdkConfig ext)
         \<and> cfg_chainId (sdkConfig ext) = Val 1"
  using build_success_shape [OF assms]
  by (auto simp: SwapService_constructor_def sdkConfig_def split: if_splits)

text \<open>The token swap on Base: both transactions carry 8453, the session was built with 1.\<close>

theorem transactions_chainId_witness:
  "getChainId (mockExternals (Inr samplePriceRoute)) (fromChain tokenRequest) = Inr (Val 8453)
   \<and> map tx_chainId (transactions tokenResponse) = [Val 8453, Val 8453]
   \<and> cfg_chainId (sdkConfig (mockExternals (Inr samplePriceRoute))) = Val 1"
  using transactions_chainId [OF token_build [unfolded mockService_def]]
  by (simp add: token_request_resolved tokenResponse_def)

end
